theory Spec2Isabelle
  imports Main "HOL-Library.Sublist"
begin

text \<open>
  A model of the client class and of its utilities \<open>utils.js\<close>: the normalisation of
  contact identifiers, the two inbound event handlers, the outbound routing with the
  media download, and the reaction to connection updates.

  What a library, the file system or the network answers is a parameter of the model.
  An identifier that a module uses without binding it (by an import or a declaration)
  throws a \<open>ReferenceError\<close> where it is evaluated; the bindings of each module are
  listed in its scope. An \<open>async\<close> function called without \<open>await\<close> runs up to its
  first \<open>await\<close> at the call and the rest after the caller has finished.
\<close>

section \<open>String primitives of the host language\<close>

text \<open>
  JavaScript strings are modelled as \<open>string\<close>. \<open>String.prototype.includes\<close> with a
  string argument tests for a contiguous occurrence; \<open>String.prototype.replace\<close> with a
  string pattern and the replacement \<open>''\<close> deletes the first (leftmost) occurrence of
  the pattern and nothing else.
\<close>

fun str_includes :: "string \<Rightarrow> string \<Rightarrow> bool" where
  "str_includes [] p = (p = [])"
| "str_includes (c # cs) p = (prefix p (c # cs) \<or> str_includes cs p)"

fun str_replace :: "string \<Rightarrow> string \<Rightarrow> string" where
  "str_replace p [] = []"
| "str_replace p (c # cs) =
     (if prefix p (c # cs) then drop (length p) (c # cs) else c # str_replace p cs)"

section \<open>utils.js\<close>

subsection \<open>formatPhone\<close>

definition g_us :: string where
  "g_us = ''@g.us''"

definition s_whatsapp_net :: string where
  "s_whatsapp_net = ''@s.whatsapp.net''"

text \<open>
  \<^verbatim>\<open>
  formatPhone: (contact, full = false) => {
      let domain = contact.includes('@g.us') ? '@g.us' : '@s.whatsapp.net';
      contact = contact.replace(domain, '');
      return !full ? `${contact}${domain}` : contact;
  }
  \<close>
\<close>

definition formatPhone :: "string \<Rightarrow> bool \<Rightarrow> string" where
  "formatPhone contact full =
     (let domain = (if str_includes contact g_us then g_us else s_whatsapp_net);
          contact' = str_replace domain contact
      in if \<not> full then contact' @ domain else contact')"

subsection \<open>generateRefprovider\<close>

text \<open>
  \<^verbatim>\<open>generateRefprovider: (prefix = '') =>
      prefix ? `${prefix}_${crypto.randomUUID()}` : crypto.randomUUID()\<close>

  The identifier drawn from \<open>crypto.randomUUID()\<close> is passed in.
\<close>

definition generateRefprovider :: "string \<Rightarrow> string \<Rightarrow> string" where
  "generateRefprovider pfx uuid = (if pfx \<noteq> [] then pfx @ ''_'' @ uuid else uuid)"

subsection \<open>isValidNumber\<close>

text \<open>
  \<^verbatim>\<open>isValidNumber: (rawNumber) => !rawNumber.match(/\@g.us\b/gm)\<close>

  The pattern is the character \<open>@\<close>, \<open>g\<close>, any one character but a line terminator,
  \<open>u\<close>, \<open>s\<close>, and a word boundary: after the word character \<open>s\<close> the subject
  ends or goes on with a character outside \<open>[A-Za-z0-9_]\<close>. \<open>match\<close> gives
  \<open>null\<close> exactly when the pattern occurs nowhere. Characters are single code units.
\<close>

definition is_word_char :: "char \<Rightarrow> bool" where
  "is_word_char c =
     (let n = (of_char c :: nat)
      in (48 \<le> n \<and> n \<le> 57) \<or> (65 \<le> n \<and> n \<le> 90) \<or> (97 \<le> n \<and> n \<le> 122) \<or> n = 95)"

definition is_line_terminator :: "char \<Rightarrow> bool" where
  "is_line_terminator c = ((of_char c :: nat) = 10 \<or> (of_char c :: nat) = 13)"

fun g_us_regex_here :: "string \<Rightarrow> bool" where
  "g_us_regex_here (a # g # d # u # s # rest) =
     (a = CHR ''@'' \<and> g = CHR ''g'' \<and> \<not> is_line_terminator d \<and> u = CHR ''u'' \<and> s = CHR ''s''
      \<and> (case rest of [] \<Rightarrow> True | r # _ \<Rightarrow> \<not> is_word_char r))"
| "g_us_regex_here _ = False"

fun g_us_regex_match :: "string \<Rightarrow> bool" where
  "g_us_regex_match [] = False"
| "g_us_regex_match (c # cs) = (g_us_regex_here (c # cs) \<or> g_us_regex_match cs)"

definition isValidNumber :: "string \<Rightarrow> bool" where
  "isValidNumber rawNumber = (\<not> g_us_regex_match rawNumber)"

section \<open>Values of the host language\<close>

text \<open>
  A field that is \<open>undefined\<close> or \<open>null\<close> is \<open>None\<close>; the code tells the two apart
  nowhere (it reads such fields through \<open>?.\<close>, \<open>??\<close> and truthiness only). A string is
  truthy when it is not empty, an object always. Where the code asks for the \<open>typeof\<close> a
  field, the field is a \<open>jsval\<close>; only the tag of a number is ever examined.
\<close>

datatype jsval = JUndefined | JNull | JBoolean bool | JNumber int | JString string

fun typeof :: "jsval \<Rightarrow> string" where
  "typeof JUndefined = ''undefined''"
| "typeof JNull = ''object''"
| "typeof (JBoolean b) = ''boolean''"
| "typeof (JNumber n) = ''number''"
| "typeof (JString s) = ''string''"

fun truthy :: "string option \<Rightarrow> bool" where
  "truthy None = False"
| "truthy (Some s) = (s \<noteq> [])"

fun truthy_flag :: "bool option \<Rightarrow> bool" where
  "truthy_flag None = False"
| "truthy_flag (Some b) = b"

definition nullish :: "'a option \<Rightarrow> 'a option \<Rightarrow> 'a option" where
  "nullish a b = (case a of None \<Rightarrow> b | Some x \<Rightarrow> Some x)"

datatype error =
  TypeError | ReferenceError | RejectedNull | NeverSettles | ReadFileError | FfmpegError

section \<open>Module scopes\<close>

text \<open>
  The names bound at the top level of \<open>utils.js\<close>:
  \<^verbatim>\<open>
  const { http, https } = followRedirects;
  import { rename, createWriteStream, existsSync } from 'fs'
  import { tmpdir } from 'os'
  import followRedirects from 'follow-redirects';
  import path from 'path';
  import crypto from 'crypto';
  export default utils = { ... }
  \<close>
  The module uses \<open>mime\<close>, \<open>extname\<close>, \<open>isUrl\<close>, \<open>readFileSync\<close> and
  \<open>ffmpeg\<close> too, and binds none of them.
\<close>

definition utils_scope :: "string list" where
  "utils_scope =
     [''http'', ''https'', ''rename'', ''createWriteStream'', ''existsSync'', ''tmpdir'',
      ''followRedirects'', ''path'', ''crypto'', ''utils'']"

text \<open>
  The names bound at the top level of the client module:
  \<^verbatim>\<open>
  import { EventEmitter } from 'events';
  import pino from 'pino'
  import NodeCache from 'node-cache'
  import makeWASocket, { DisconnectReason, fetchLatestBaileysVersion,
      getAggregateVotesInPollMessage, makeCacheableSignalKeyStore, makeInMemoryStore,
      useMultiFileAuthState, Browsers } from '@whiskeysockets/baileys'
  import { readFileSync } from 'fs';
  import { Sticker } from 'wa-sticker-formatter'
  import ffmpeg from 'fluent-ffmpeg';
  import ffmpegInstaller from '@ffmpeg-installer/ffmpeg';
  import mime from 'mime-types';
  import utils from './lib/utils';
  const msgRetryCounterCache = new NodeCache()
  const SESSION_DIRECTORY_NAME = `baileys_sessions`;
  class BaileysClass extends EventEmitter { ... }
  \<close>
  The module uses \<open>join\<close>, \<open>rimraf\<close> and \<open>proto\<close> too, and binds none of them.
\<close>

definition client_scope :: "string list" where
  "client_scope =
     [''EventEmitter'', ''pino'', ''NodeCache'', ''makeWASocket'', ''DisconnectReason'',
      ''fetchLatestBaileysVersion'', ''getAggregateVotesInPollMessage'',
      ''makeCacheableSignalKeyStore'', ''makeInMemoryStore'', ''useMultiFileAuthState'',
      ''Browsers'', ''readFileSync'', ''Sticker'', ''ffmpeg'', ''ffmpegInstaller'', ''mime'',
      ''utils'', ''msgRetryCounterCache'', ''SESSION_DIRECTORY_NAME'', ''BaileysClass'']"

definition bound :: "string list \<Rightarrow> string \<Rightarrow> bool" where
  "bound scope ident = (ident \<in> set scope)"

section \<open>The event handlers of the client class\<close>

subsection \<open>Inbound protocol messages\<close>

text \<open>
  The fields of a raw upsert entry that the handler reads. Sub-messages the handler only
  tests for presence carry an opaque content.
\<close>

type_synonym opaque = string

record msg_key =
  remoteJid :: "string option"
  fromMe :: "bool option"
  key_id :: "string option"

record extended_text_message =
  ext_text :: "string option"

record location_message =
  degreesLatitude :: jsval
  degreesLongitude :: jsval

record buttons_response_message =
  selectedDisplayText :: "string option"

record list_response_message =
  title :: "string option"

record message_content =
  conversation :: "string option"
  extendedTextMessage :: "extended_text_message option"
  pollUpdateMessage :: "opaque option"
  locationMessage :: "location_message option"
  imageMessage :: "opaque option"
  documentMessage :: "opaque option"
  audioMessage :: "opaque option"
  buttonsResponseMessage :: "buttons_response_message option"
  listResponseMessage :: "list_response_message option"

record message_ctx =
  key :: "msg_key option"
  message :: "message_content option"
  pushName :: "string option"

text \<open>
  The payload is \<^verbatim>\<open>{ ...messageCtx, body, from, type }\<close>: the entry's own fields and three
  more.
\<close>

record payload = message_ctx +
  p_body :: "string option"
  p_from :: "string option"
  p_type :: string

record upsert_event =
  messages :: "message_ctx list"
  ev_type :: string

subsection \<open>The \<open>messages.upsert\<close> handler\<close>

text \<open>
  \<^verbatim>\<open>
  let payload = {
      ...messageCtx,
      body: messageCtx?.message?.extendedTextMessage?.text ?? messageCtx?.message?.conversation,
      from: messageCtx?.key?.remoteJid,
      type: 'text'
  };
  \<close>
\<close>

definition initial_payload :: "message_ctx \<Rightarrow> payload" where
  "initial_payload messageCtx =
     \<lparr> key = key messageCtx, message = message messageCtx, pushName = pushName messageCtx,
       p_body = nullish (Option.bind (message messageCtx)
                           (\<lambda>m. Option.bind (extendedTextMessage m) ext_text))
                        (Option.bind (message messageCtx) conversation),
       p_from = Option.bind (key messageCtx) remoteJid,
       p_type = ''text'' \<rparr>"

text \<open>
  The four detection steps run one after the other, each an \<open>if\<close> of its own with no
  \<open>else\<close>; each one that fires overwrites \<open>body\<close> and \<open>type\<close> and draws one fresh
  identifier. The state threaded through them is the payload and the number of
  identifiers drawn so far.
  \<^verbatim>\<open>
  if (messageCtx.message?.locationMessage) {
      const { degreesLatitude, degreesLongitude } = messageCtx.message.locationMessage;
      if (typeof degreesLatitude === 'number' && typeof degreesLongitude === 'number') {
          payload = { ...payload, body: utils.generateRefprovider('_event_location_'), type: 'location' };
      }
  }
  if (messageCtx.message?.imageMessage) {
      payload = { ...payload, body: utils.generateRefprovider('_event_media_'), type: 'image' };
  }
  if (messageCtx.message?.documentMessage) {
      payload = { ...payload, body: utils.generateRefprovider('_event_document_'), type: 'file' };
  }
  if (messageCtx.message?.audioMessage) {
      payload = { ...payload, body: utils.generateRefprovider('_event_voice_note_'), type: 'voice' };
  }
  \<close>
\<close>

definition retag :: "(nat \<Rightarrow> string) \<Rightarrow> string \<Rightarrow> string \<Rightarrow> payload \<times> nat \<Rightarrow> payload \<times> nat" where
  "retag uuid pfx ty st =
     (case st of (p, k) \<Rightarrow>
        (p\<lparr>p_body := Some (generateRefprovider pfx (uuid k)), p_type := ty\<rparr>, Suc k))"

definition detect_location :: "(nat \<Rightarrow> string) \<Rightarrow> message_ctx \<Rightarrow> payload \<times> nat \<Rightarrow> payload \<times> nat" where
  "detect_location uuid messageCtx st =
     (case Option.bind (message messageCtx) locationMessage of
        None \<Rightarrow> st
      | Some loc \<Rightarrow>
          if typeof (degreesLatitude loc) = ''number'' \<and> typeof (degreesLongitude loc) = ''number''
          then retag uuid ''_event_location_'' ''location'' st
          else st)"

definition detect_image :: "(nat \<Rightarrow> string) \<Rightarrow> message_ctx \<Rightarrow> payload \<times> nat \<Rightarrow> payload \<times> nat" where
  "detect_image uuid messageCtx st =
     (case Option.bind (message messageCtx) imageMessage of
        None \<Rightarrow> st
      | Some _ \<Rightarrow> retag uuid ''_event_media_'' ''image'' st)"

definition detect_document :: "(nat \<Rightarrow> string) \<Rightarrow> message_ctx \<Rightarrow> payload \<times> nat \<Rightarrow> payload \<times> nat" where
  "detect_document uuid messageCtx st =
     (case Option.bind (message messageCtx) documentMessage of
        None \<Rightarrow> st
      | Some _ \<Rightarrow> retag uuid ''_event_document_'' ''file'' st)"

definition detect_audio :: "(nat \<Rightarrow> string) \<Rightarrow> message_ctx \<Rightarrow> payload \<times> nat \<Rightarrow> payload \<times> nat" where
  "detect_audio uuid messageCtx st =
     (case Option.bind (message messageCtx) audioMessage of
        None \<Rightarrow> st
      | Some _ \<Rightarrow> retag uuid ''_event_voice_note_'' ''voice'' st)"

definition classify :: "(nat \<Rightarrow> string) \<Rightarrow> message_ctx \<Rightarrow> payload \<Rightarrow> payload" where
  "classify uuid messageCtx p =
     fst (detect_audio uuid messageCtx
           (detect_document uuid messageCtx
             (detect_image uuid messageCtx
               (detect_location uuid messageCtx (p, 0)))))"

text \<open>
  The test of the location step: a location sub-message whose two coordinates are both
  numbers.
\<close>

definition has_location :: "message_ctx \<Rightarrow> bool" where
  "has_location messageCtx =
     (case Option.bind (message messageCtx) locationMessage of
        None \<Rightarrow> False
      | Some loc \<Rightarrow>
          typeof (degreesLatitude loc) = ''number'' \<and> typeof (degreesLongitude loc) = ''number'')"

text \<open>
  \<^verbatim>\<open>
  const btnCtx = payload?.message?.buttonsResponseMessage?.selectedDisplayText;
  if (btnCtx) payload.body = btnCtx;

  const listRowId = payload?.message?.listResponseMessage?.title;
  if (listRowId) payload.body = listRowId;
  \<close>
\<close>

definition btnCtx :: "payload \<Rightarrow> string option" where
  "btnCtx p =
     Option.bind (message p) (\<lambda>m. Option.bind (buttonsResponseMessage m) selectedDisplayText)"

definition listRowId :: "payload \<Rightarrow> string option" where
  "listRowId p =
     Option.bind (message p) (\<lambda>m. Option.bind (listResponseMessage m) title)"

definition reply_overrides :: "payload \<Rightarrow> payload" where
  "reply_overrides p =
     (let p1 = (if truthy (btnCtx p) then p\<lparr>p_body := btnCtx p\<rparr> else p);
          p2 = (if truthy (listRowId p1) then p1\<lparr>p_body := listRowId p1\<rparr> else p1)
      in p2)"

text \<open>
  The whole handler. Its result is what it hands to \<open>this.emit('message', _)\<close>:
  \<open>Inr None\<close> when it returns without emitting, \<open>Inl\<close> when it throws. It throws a
  \<open>TypeError\<close> where it reads \<open>messageCtx.message\<close> of an empty batch (the first
  element is then \<open>undefined\<close>) and where \<open>formatPhone\<close> calls \<open>includes\<close> on a
  sender that is \<open>undefined\<close>.
  \<^verbatim>\<open>
  func: ({ messages, type }) => {
      if (type !== 'notify') return
      const [messageCtx] = messages;
      let payload = ...
      if (messageCtx.message?.pollUpdateMessage) return
      if (payload.from === 'status@broadcast') return
      if (payload?.key?.fromMe) return
      ... the four detection steps ...
      if (!utils.formatPhone(payload.from)) {
          return
      }
      ... the two reply overrides ...
      payload.from = utils.formatPhone(payload.from, false);
      this.emit('message', payload);
  }
  \<close>
\<close>

definition gate_and_emit :: "payload \<Rightarrow> error + payload option" where
  "gate_and_emit p1 =
     (case p_from p1 of
        None \<Rightarrow> Inl TypeError
      | Some sender \<Rightarrow>
          if formatPhone sender False = [] then Inr None
          else (let p2 = reply_overrides p1
                in (case p_from p2 of
                      None \<Rightarrow> Inl TypeError
                    | Some sender2 \<Rightarrow>
                        Inr (Some (p2\<lparr>p_from := Some (formatPhone sender2 False)\<rparr>)))))"

definition messages_upsert :: "(nat \<Rightarrow> string) \<Rightarrow> upsert_event \<Rightarrow> error + payload option" where
  "messages_upsert uuid ev =
     (if ev_type ev \<noteq> ''notify'' then Inr None
      else (case messages ev of
              [] \<Rightarrow> Inl TypeError
            | messageCtx # _ \<Rightarrow>
                (let p0 = initial_payload messageCtx
                 in if Option.bind (message messageCtx) pollUpdateMessage \<noteq> None then Inr None
                    else if p_from p0 = Some ''status@broadcast'' then Inr None
                    else if truthy_flag (Option.bind (key p0) fromMe) then Inr None
                    else gate_and_emit (classify uuid messageCtx p0))))"

subsection \<open>The \<open>messages.update\<close> handler\<close>

text \<open>
  \<open>getAggregateVotesInPollMessage\<close> belongs to the protocol library; it is a parameter
  here, giving for a poll-creation message and the reported updates the list of options,
  each with its name and the identifiers of its voters.
\<close>

record poll_option =
  name :: string
  voters :: "string list"

record poll_update =
  pollUpdates :: "opaque list option"

record update_entry =
  u_key :: msg_key
  u_update :: poll_update

record poll_payload = update_entry +
  pp_body :: string
  pp_from :: "string option"
  pp_voters :: message_content
  pp_type :: string

text \<open>
  \<^verbatim>\<open>
  getMessage = async (key) => {
      if (this.store) {
          const msg = await this.store.loadMessage(key.remoteJid, key.id)
          return msg?.message || undefined
      }
      // only if store is present
      return proto.Message.fromObject({})
  }
  \<close>
  The store is \<open>None\<close> while \<open>this.store\<close> is \<open>null\<close>. The last line then
  evaluates \<open>proto\<close>, which the module does not bind; were it bound,
  \<open>proto.Message.fromObject({})\<close> would be the message with no field set.
\<close>

type_synonym message_store = "string option \<Rightarrow> string option \<Rightarrow> message_ctx option"

definition empty_message :: message_content where
  "empty_message =
     \<lparr> conversation = None, extendedTextMessage = None, pollUpdateMessage = None,
       locationMessage = None, imageMessage = None, documentMessage = None,
       audioMessage = None, buttonsResponseMessage = None, listResponseMessage = None \<rparr>"

definition getMessage :: "message_store option \<Rightarrow> msg_key \<Rightarrow> error + message_content option" where
  "getMessage store k =
     (case store of
        Some loadMessage \<Rightarrow> Inr (Option.bind (loadMessage (remoteJid k) (key_id k)) message)
      | None \<Rightarrow> if bound client_scope ''proto'' then Inr (Some empty_message)
                else Inl ReferenceError)"

text \<open>
  \<^verbatim>\<open>body: pollMessage.find(poll => poll.voters.length > 0)?.name || ''\<close>
\<close>

definition poll_body :: "poll_option list \<Rightarrow> string" where
  "poll_body pollMessage =
     (case List.find (\<lambda>poll. length (voters poll) > 0) pollMessage of
        None \<Rightarrow> []
      | Some poll \<Rightarrow> name poll)"

text \<open>
  \<^verbatim>\<open>
  func: async (message) => {
      for (const { key, update } of message) {
          if (update.pollUpdates) {
              const pollCreation = await this.getMessage(key)
              if (pollCreation) {
                  const pollMessage = await getAggregateVotesInPollMessage({
                      message: pollCreation,
                      pollUpdates: update.pollUpdates,
                  })
                  const [messageCtx] = message;
                  let payload = {
                      ...messageCtx,
                      body: pollMessage.find(poll => poll.voters.length > 0)?.name || '',
                      from: key.remoteJid,
                      voters: pollCreation,
                      type: 'poll'
                  };
                  this.emit('message', payload);
              }
          }
      }
  }
  \<close>
  One pass of the loop gives the payload it emits, if any, or the error it throws;
  \<open>messageCtx\<close> is the first entry of the whole batch, whichever entry the pass is at.
  An array, also an empty one, is truthy. The handler gives the payloads it has emitted,
  in order, and the error that ended it, if one did.
\<close>

definition poll_update_step ::
  "message_store option \<Rightarrow> (message_content \<Rightarrow> opaque list \<Rightarrow> poll_option list) \<Rightarrow>
   update_entry \<Rightarrow> update_entry \<Rightarrow> error + poll_payload option" where
  "poll_update_step store aggregate messageCtx entry =
     (case pollUpdates (u_update entry) of
        None \<Rightarrow> Inr None
      | Some ups \<Rightarrow>
          (case getMessage store (u_key entry) of
             Inl e \<Rightarrow> Inl e
           | Inr None \<Rightarrow> Inr None
           | Inr (Some pollCreation) \<Rightarrow>
               Inr (Some \<lparr> u_key = u_key messageCtx, u_update = u_update messageCtx,
                           pp_body = poll_body (aggregate pollCreation ups),
                           pp_from = remoteJid (u_key entry),
                           pp_voters = pollCreation,
                           pp_type = ''poll'' \<rparr>)))"

fun poll_update_loop ::
  "message_store option \<Rightarrow> (message_content \<Rightarrow> opaque list \<Rightarrow> poll_option list) \<Rightarrow>
   update_entry \<Rightarrow> update_entry list \<Rightarrow> poll_payload list \<times> error option" where
  "poll_update_loop store aggregate messageCtx [] = ([], None)"
| "poll_update_loop store aggregate messageCtx (entry # rest) =
     (case poll_update_step store aggregate messageCtx entry of
        Inl e \<Rightarrow> ([], Some e)
      | Inr None \<Rightarrow> poll_update_loop store aggregate messageCtx rest
      | Inr (Some payload) \<Rightarrow>
          (case poll_update_loop store aggregate messageCtx rest of
             (emitted, err) \<Rightarrow> (payload # emitted, err)))"

definition messages_update ::
  "message_store option \<Rightarrow> (message_content \<Rightarrow> opaque list \<Rightarrow> poll_option list) \<Rightarrow>
   update_entry list \<Rightarrow> poll_payload list \<times> error option" where
  "messages_update store aggregate batch =
     (case batch of
        [] \<Rightarrow> ([], None)
      | messageCtx # _ \<Rightarrow> poll_update_loop store aggregate messageCtx batch)"

section \<open>Effects of the outbound side\<close>

text \<open>
  What the send path and the media download do to the outside is recorded as a list of
  effects, in the order the code issues them. A computation gives its result, or the
  error it throws, together with the effects issued up to there.
\<close>

datatype content =
    TextContent string
  | PollContent string "string list" nat
  | ImageContent string string
  | VideoContent string "string option" bool
  | AudioContent string bool
  | DocumentContent string "string option" string

datatype effect =
    VendorSend string content
  | CreateWriteStream string
  | HttpGet bool string
  | Rename string string
  | Ffmpeg string string

datatype ret = RetFalse | RetAck string content

type_synonym 'a io = "(error + 'a) \<times> effect list"

definition bind_io :: "'a io \<Rightarrow> ('a \<Rightarrow> 'b io) \<Rightarrow> 'b io" where
  "bind_io m f =
     (case m of
        (Inl e, es) \<Rightarrow> (Inl e, es)
      | (Inr a, es) \<Rightarrow> (case f a of (r, es') \<Rightarrow> (r, es @ es')))"

subsection \<open>generalDownload\<close>

text \<open>
  The answers of the file system, the clock, the network and the \<open>mime-types\<close> and
  \<open>path\<close> libraries. \<open>mime.contentType\<close>, \<open>mime.extension\<close> and \<open>mime.lookup\<close>
  give \<open>false\<close> where they know no answer: \<open>None\<close>. A request whose response never
  comes leaves the promise pending for ever; \<open>get\<close> itself throws a \<open>TypeError\<close> on a
  string it cannot read as a URL of its protocol.
\<close>

datatype http_outcome = Responded "string option" | FileStreamError | NoResponse | GetThrows

record media_env =
  existsSync :: "string \<Rightarrow> bool"
  tmpdir :: string
  date_now :: string
  http_get :: "string \<Rightarrow> http_outcome"
  rename_fails :: "string \<Rightarrow> string \<Rightarrow> bool"
  extname :: "string \<Rightarrow> string"
  mime_contentType :: "string \<Rightarrow> string option"
  mime_extension :: "string \<Rightarrow> string option"
  mime_lookup :: "string \<Rightarrow> string option"
  readFileSync :: "string \<Rightarrow> string option"
  path_dirname :: "string \<Rightarrow> string"
  path_basename :: "string \<Rightarrow> string \<Rightarrow> string"
  path_join :: "string \<Rightarrow> string \<Rightarrow> string"
  ffmpeg_fails :: "string \<Rightarrow> bool"

text \<open>
  \<^verbatim>\<open>
  const handleDownload = () => {
      const checkProtocol = url.includes('https:')
      const handleHttp = checkProtocol ? https : http
      const name = `tmp-${Date.now()}-dat`
      const fullPath = `${tmpdir()}/${name}`
      const file = createWriteStream(fullPath)
      if (checkIsLocal) {
          return new Promise((res) => {
              const response = { headers: { 'content-type': mime.contentType(extname(url)) } }
              res({ response, fullPath: url })
          })
      } else {
          return new Promise((res, rej) => {
              handleHttp.get(url, function (response) {
                  response.pipe(file)
                  file.on('finish', async function () { file.close(); res({ response, fullPath }) })
                  file.on('error', function () { file.close(); rej(null) })
              })
          })
      }
  }
  \<close>
  The response is kept as its \<open>content-type\<close> header, the one field read later. In the
  local branch the executor of the promise evaluates \<open>mime\<close> and \<open>extname\<close>, after
  the write stream has been opened; an error thrown in an executor rejects the promise.
\<close>

definition handleDownload :: "media_env \<Rightarrow> string \<Rightarrow> bool \<Rightarrow> (string option \<times> string) io" where
  "handleDownload env url checkIsLocal =
     (let checkProtocol = str_includes url ''https:'';
          name = ''tmp-'' @ date_now env @ ''-dat'';
          fullPath = tmpdir env @ ''/'' @ name
      in if checkIsLocal
         then (if bound utils_scope ''mime'' \<and> bound utils_scope ''extname''
               then (Inr (mime_contentType env (extname env url), url), [CreateWriteStream fullPath])
               else (Inl ReferenceError, [CreateWriteStream fullPath]))
         else (case http_get env url of
                 Responded content_type \<Rightarrow>
                   (Inr (content_type, fullPath),
                    [CreateWriteStream fullPath, HttpGet checkProtocol url])
               | FileStreamError \<Rightarrow>
                   (Inl RejectedNull, [CreateWriteStream fullPath, HttpGet checkProtocol url])
               | NoResponse \<Rightarrow>
                   (Inl NeverSettles, [CreateWriteStream fullPath, HttpGet checkProtocol url])
               | GetThrows \<Rightarrow>
                   (Inl TypeError, [CreateWriteStream fullPath])))"

text \<open>
  \<^verbatim>\<open>
  fileTypeFromFile: async (response) => {
      const type = response.headers['content-type'] ?? null
      const ext = mime.extension(type)
      return { type, ext }
  }
  \<close>
\<close>

definition fileTypeFromFile ::
  "media_env \<Rightarrow> string option \<Rightarrow> error + (string option \<times> string option)" where
  "fileTypeFromFile env content_type =
     (if bound utils_scope ''mime''
      then Inr (content_type, Option.bind content_type (mime_extension env))
      else Inl ReferenceError)"

text \<open>
  \<^verbatim>\<open>
  const handleFile = (pathInput, ext) =>
      new Promise((resolve, reject) => {
          const fullPath = `${pathInput}.${ext}`
          rename(pathInput, fullPath, (err) => {
              if (err) reject(null)
              resolve(fullPath)
          })
      })
  \<close>
  In the template an extension that is \<open>false\<close> prints as \<open>false\<close>.
\<close>

definition handleFile :: "media_env \<Rightarrow> string \<Rightarrow> string option \<Rightarrow> string io" where
  "handleFile env pathInput ext =
     (let fullPath = pathInput @ ''.'' @ (case ext of None \<Rightarrow> ''false'' | Some e \<Rightarrow> e)
      in if rename_fails env pathInput fullPath
         then (Inl RejectedNull, [Rename pathInput fullPath])
         else (Inr fullPath, [Rename pathInput fullPath]))"

text \<open>
  \<^verbatim>\<open>
  generalDownload: async (url) => {
      const checkIsLocal = existsSync(url)
      ...
      const httpResponse = await handleDownload()
      const { ext } = await utils.fileTypeFromFile(httpResponse.response)
      const getPath = await handleFile(httpResponse.fullPath, ext)
      return getPath
  }
  \<close>
\<close>

definition generalDownload :: "media_env \<Rightarrow> string \<Rightarrow> string io" where
  "generalDownload env url =
     (let checkIsLocal = existsSync env url
      in bind_io (handleDownload env url checkIsLocal)
           (\<lambda>httpResponse.
              case fileTypeFromFile env (fst httpResponse) of
                Inl e \<Rightarrow> (Inl e, [])
              | Inr file_type \<Rightarrow> handleFile env (snd httpResponse) (snd file_type)))"

subsection \<open>convertAudio\<close>

text \<open>
  \<^verbatim>\<open>
  convertAudio: async (filePath = null, format = 'opus') => {
      const formats = { mp3: { code: 'libmp3lame', ext: 'mp3' }, opus: { code: 'libopus', ext: 'opus' } }
      const opusFilePath = path.join(path.dirname(filePath),
          `${path.basename(filePath, path.extname(filePath))}.${formats[format].ext}`)
      await new Promise((resolve, reject) => { ffmpeg(filePath)... .output(opusFilePath)
          .on('end', resolve).on('error', reject).run() })
      return opusFilePath
  }
  \<close>
  The client calls it with the default format only. \<open>ffmpeg\<close> is evaluated in the
  executor of the promise.
\<close>

definition convertAudio :: "media_env \<Rightarrow> string \<Rightarrow> string io" where
  "convertAudio env filePath =
     (let opusFilePath =
            path_join env (path_dirname env filePath)
              (path_basename env filePath (extname env filePath) @ ''.'' @ ''opus'')
      in if \<not> bound utils_scope ''ffmpeg'' then (Inl ReferenceError, [])
         else if ffmpeg_fails env filePath
         then (Inl FfmpegError, [Ffmpeg filePath opusFilePath])
         else (Inr opusFilePath, [Ffmpeg filePath opusFilePath]))"

subsection \<open>The senders of the client class\<close>

text \<open>
  \<open>this.vendor\<close> is \<open>null\<close> until the connection is open; a call of
  \<open>this.vendor.sendMessage\<close> then throws a \<open>TypeError\<close> before its arguments are
  evaluated. What the connection answers to a send is kept as the send itself.
\<close>

record client =
  vendor_ready :: bool
  gifPlayback :: bool

definition vendor_sendMessage :: "client \<Rightarrow> string \<Rightarrow> content \<Rightarrow> ret io" where
  "vendor_sendMessage cl jid c =
     (if vendor_ready cl then (Inr (RetAck jid c), [VendorSend jid c]) else (Inl TypeError, []))"

text \<open>
  \<^verbatim>\<open>
  sendText = async (number, message) => {
      const numberClean = utils.formatPhone(number)
      return this.vendor.sendMessage(numberClean, { text: message })
  }
  \<close>
\<close>

definition sendText :: "client \<Rightarrow> string \<Rightarrow> string \<Rightarrow> ret io" where
  "sendText cl number msg =
     (let numberClean = formatPhone number False
      in vendor_sendMessage cl numberClean (TextContent msg))"

text \<open>
  \<^verbatim>\<open>
  sendImage = async (number, filePath, text) => {
      const numberClean = utils.formatPhone(number)
      return this.vendor.sendMessage(numberClean, { image: readFileSync(filePath), caption: text ?? '' })
  }
  sendVideo = async (number, filePath, text) => {
      const numberClean = utils.formatPhone(number)
      return this.vendor.sendMessage(numberClean, { video: readFileSync(filePath), caption: text,
          gifPlayback: this.globalVendorArgs.gifPlayback })
  }
  sendAudio = async (number, audioUrl) => {
      const numberClean = utils.formatPhone(number)
      return this.vendor.sendMessage(numberClean, { audio: { url: audioUrl }, ptt: true })
  }
  sendFile = async (number, filePath) => {
      const numberClean = utils.formatPhone(number)
      const mimeType = mime.lookup(filePath);
      const fileName = filePath.split('/').pop();
      return this.vendor.sendMessage(numberClean, { document: { url: filePath }, mimetype: mimeType,
          fileName: fileName })
  }
  \<close>
\<close>

definition sendImage :: "media_env \<Rightarrow> client \<Rightarrow> string \<Rightarrow> string \<Rightarrow> string option \<Rightarrow> ret io" where
  "sendImage env cl number filePath txt =
     (let numberClean = formatPhone number False
      in if \<not> vendor_ready cl then (Inl TypeError, [])
         else (case readFileSync env filePath of
                 None \<Rightarrow> (Inl ReadFileError, [])
               | Some buffer \<Rightarrow>
                   vendor_sendMessage cl numberClean
                     (ImageContent buffer (case txt of None \<Rightarrow> [] | Some t \<Rightarrow> t))))"

definition sendVideo :: "media_env \<Rightarrow> client \<Rightarrow> string \<Rightarrow> string \<Rightarrow> string option \<Rightarrow> ret io" where
  "sendVideo env cl number filePath txt =
     (let numberClean = formatPhone number False
      in if \<not> vendor_ready cl then (Inl TypeError, [])
         else (case readFileSync env filePath of
                 None \<Rightarrow> (Inl ReadFileError, [])
               | Some buffer \<Rightarrow>
                   vendor_sendMessage cl numberClean (VideoContent buffer txt (gifPlayback cl))))"

definition sendAudio :: "client \<Rightarrow> string \<Rightarrow> string \<Rightarrow> ret io" where
  "sendAudio cl number audioUrl =
     (let numberClean = formatPhone number False
      in vendor_sendMessage cl numberClean (AudioContent audioUrl True))"

fun last_segment :: "string \<Rightarrow> string \<Rightarrow> string" where
  "last_segment acc [] = acc"
| "last_segment acc (c # cs) = (if c = CHR ''/'' then last_segment [] cs else last_segment (acc @ [c]) cs)"

definition sendFile :: "media_env \<Rightarrow> client \<Rightarrow> string \<Rightarrow> string \<Rightarrow> ret io" where
  "sendFile env cl number filePath =
     (let numberClean = formatPhone number False;
          mimeType = mime_lookup env filePath;
          fileName = last_segment [] filePath
      in vendor_sendMessage cl numberClean (DocumentContent filePath mimeType fileName))"

text \<open>
  \<^verbatim>\<open>
  sendMedia = async (number, mediaUrl, text) => {
      try {
          const fileDownloaded = await utils.generalDownload(mediaUrl);
          const mimeType = mime.lookup(fileDownloaded);
          if (mimeType.includes('image')) return this.sendImage(number, fileDownloaded, text)
          if (mimeType.includes('video')) return this.sendVideo(number, fileDownloaded, text)
          if (mimeType.includes('audio')) {
              const fileOpus = await utils.convertAudio(fileDownloaded);
              return this.sendAudio(number, fileOpus, text)
          }
          return this.sendFile(number, fileDownloaded)
      } catch (error) {
          console.error(`Error enviando media: ${error}`);
          throw error;
      }
  }
  \<close>
  \<open>mime.lookup\<close> gives \<open>false\<close> for a path it knows no type of, and \<open>false\<close> has no
  \<open>includes\<close>: a \<open>TypeError\<close>.
\<close>

definition sendMedia :: "media_env \<Rightarrow> client \<Rightarrow> string \<Rightarrow> string \<Rightarrow> string option \<Rightarrow> ret io" where
  "sendMedia env cl number mediaUrl txt =
     bind_io (generalDownload env mediaUrl)
       (\<lambda>fileDownloaded.
          case mime_lookup env fileDownloaded of
            None \<Rightarrow> (Inl TypeError, [])
          | Some mimeType \<Rightarrow>
              if str_includes mimeType ''image'' then sendImage env cl number fileDownloaded txt
              else if str_includes mimeType ''video'' then sendVideo env cl number fileDownloaded txt
              else if str_includes mimeType ''audio''
                then bind_io (convertAudio env fileDownloaded) (\<lambda>fileOpus. sendAudio cl number fileOpus)
              else sendFile env cl number fileDownloaded)"

text \<open>
  \<^verbatim>\<open>
  sendPoll = async (number, text, poll) => {
      const numberClean = utils.formatPhone(number)
      if (poll.options.length < 2) return false
      const pollMessage = { name: text, values: poll.options, selectableCount: 1 };
      return this.vendor.sendMessage(numberClean, { poll: pollMessage })
  }
  \<close>
\<close>

definition sendPoll :: "client \<Rightarrow> string \<Rightarrow> string \<Rightarrow> string list \<Rightarrow> ret io" where
  "sendPoll cl number txt poll_options =
     (let numberClean = formatPhone number False
      in if length poll_options < 2 then (Inr RetFalse, [])
         else vendor_sendMessage cl numberClean (PollContent txt poll_options 1))"

text \<open>
  The class declares the field \<open>sendMessage\<close> twice; the later initialiser, this one,
  is the value the instance keeps. Its third parameter is the pattern \<open>{ options }\<close>:
  binding it to \<open>undefined\<close> (no third argument) throws a \<open>TypeError\<close> before the body
  runs.
  \<^verbatim>\<open>
  sendMessage = async (numberIn, message, { options }) => {
      const number = utils.formatPhone(numberIn);
      if (options?.buttons?.length) {
          return this.sendPoll(number, message, {
              options: options.buttons.map((btn, i) => (btn.body)) ?? [],
          })
      }
      if (options?.media) return this.sendMedia(number, options.media, message)
      return this.sendText(number, message)
  }
  \<close>
\<close>

record button =
  btn_body :: string

record send_options =
  buttons :: "button list option"
  media :: "string option"

record send_arg =
  opts :: "send_options option"

definition sendMessage ::
  "media_env \<Rightarrow> client \<Rightarrow> string \<Rightarrow> string \<Rightarrow> send_arg option \<Rightarrow> ret io" where
  "sendMessage env cl numberIn msg arg3 =
     (case arg3 of
        None \<Rightarrow> (Inl TypeError, [])
      | Some a \<Rightarrow>
          (let options = opts a;
               number = formatPhone numberIn False;
               btns = (case Option.bind options buttons of None \<Rightarrow> [] | Some bs \<Rightarrow> bs)
           in if length btns \<noteq> 0 then sendPoll cl number msg (map btn_body btns)
              else (case Option.bind options media of
                      None \<Rightarrow> sendText cl number msg
                    | Some m \<Rightarrow>
                        if m \<noteq> [] then sendMedia env cl number m (Some msg)
                        else sendText cl number msg)))"

section \<open>The connection lifecycle\<close>

text \<open>
  The persisted session state is the content of the session directory. Stable storage
  is a map from paths to file contents; the lifecycle's effects are logged in the order
  they happen. \<open>useMultiFileAuthState\<close> reads the credentials from \<open>creds.json\<close> in
  the session directory, and starts from fresh credentials (a new login) when the file
  is not there.

  Work that the handler starts and does not wait for (the body of \<open>initBailey\<close> behind
  its first \<open>await\<close>, the completion callback of \<open>rimraf\<close>) is queued as a task and
  runs after the handler has returned or thrown.
\<close>

datatype lc_effect =
    RimrafCalled string
  | AuthStateLoaded string "string option"
  | StoreReadFromFile string
  | IntervalSet nat
  | SocketMade "string option"
  | VendorSet
  | BusEventsBound
  | EmitReady
  | EmitQr string

datatype task = InitBaileyRest | RimrafDone string

record lifecycle =
  files :: "string \<Rightarrow> string option"
  lc_log :: "lc_effect list"
  pending :: "task list"

record lc_env =
  cwd :: string
  rimraf_err :: bool

definition SESSION_DIRECTORY_NAME :: string where
  "SESSION_DIRECTORY_NAME = ''baileys_sessions''"

text \<open>\<open>DisconnectReason.loggedOut\<close> of the protocol library.\<close>

definition loggedOut :: int where
  "loggedOut = 401"

text \<open>\<open>path.join\<close> of two segments that need no normalising.\<close>

definition join :: "string \<Rightarrow> string \<Rightarrow> string" where
  "join a b = a @ ''/'' @ b"

definition creds_file :: "lc_env \<Rightarrow> string" where
  "creds_file env = join (join (cwd env) SESSION_DIRECTORY_NAME) ''creds.json''"

text \<open>A path is inside a directory when it is the directory or lies below it.\<close>

definition inside :: "string \<Rightarrow> string \<Rightarrow> bool" where
  "inside dir p = (p = dir \<or> prefix (dir @ ''/'') p)"

text \<open>
  \<^verbatim>\<open>
  initBailey = async () => {
      const logger = pino({ level: 'fatal' })
      const { state, saveCreds } = await useMultiFileAuthState(SESSION_DIRECTORY_NAME);
      const { version, isLatest } = await fetchLatestBaileysVersion()
      this.store = makeInMemoryStore({ logger })
      this.store.readFromFile(`./${SESSION_DIRECTORY_NAME}/baileys_store.json`)
      setInterval(() => {
          this.store.writeToFile(`./${SESSION_DIRECTORY_NAME}/baileys_store.json`)
      }, 10_000)
      try {
          this.setUpBaileySock({ version, logger, state, saveCreds });
      } catch (e) {
          this.emit('auth_failure', e);
      }
  }
  \<close>
  The call runs up to the first \<open>await\<close> and logs nothing; the rest is a task.
  \<open>setUpBaileySock\<close> makes the socket from \<open>state.creds\<close>; it is an \<open>async\<close>
  function called without \<open>await\<close>, so the \<open>catch\<close> never runs.
\<close>

definition initBailey :: "lifecycle \<Rightarrow> lifecycle" where
  "initBailey w = w\<lparr>pending := pending w @ [InitBaileyRest]\<rparr>"

definition initBailey_rest :: "lc_env \<Rightarrow> lifecycle \<Rightarrow> lifecycle" where
  "initBailey_rest env w =
     (let creds = files w (creds_file env)
      in w\<lparr>lc_log := lc_log w @
             [AuthStateLoaded SESSION_DIRECTORY_NAME creds,
              StoreReadFromFile (''./'' @ SESSION_DIRECTORY_NAME @ ''/baileys_store.json''),
              IntervalSet 10000,
              SocketMade creds]\<rparr>)"

text \<open>
  \<^verbatim>\<open>
  clearSessionAndRestart = () => {
      const PATH_BASE = join(process.cwd(), SESSION_DIRECTORY_NAME);
      rimraf(PATH_BASE, (err) => {
          if (err) return;
          this.initBailey();
      });
  }
  \<close>
  The first statement evaluates \<open>join\<close>, the second \<open>rimraf\<close>. Were both bound, the
  call of \<open>rimraf\<close> would be logged and its callback queued: a \<open>rimraf\<close> that reports no
  error has removed the directory and all below it, and the callback then calls
  \<open>initBailey\<close>; of one that reports an error the model keeps the files as they were.
\<close>

definition clearSessionAndRestart :: "lc_env \<Rightarrow> lifecycle \<Rightarrow> error option \<times> lifecycle" where
  "clearSessionAndRestart env w =
     (if \<not> bound client_scope ''join'' then (Some ReferenceError, w)
      else (let PATH_BASE = join (cwd env) SESSION_DIRECTORY_NAME
            in if \<not> bound client_scope ''rimraf'' then (Some ReferenceError, w)
               else (None, w\<lparr>lc_log := lc_log w @ [RimrafCalled PATH_BASE],
                              pending := pending w @ [RimrafDone PATH_BASE]\<rparr>)))"

definition rimraf_done :: "lc_env \<Rightarrow> string \<Rightarrow> lifecycle \<Rightarrow> lifecycle" where
  "rimraf_done env PATH_BASE w =
     (if rimraf_err env then w
      else initBailey_rest env
             (w\<lparr>files := (\<lambda>p. if inside PATH_BASE p then None else files w p)\<rparr>))"

fun run_task :: "lc_env \<Rightarrow> task \<Rightarrow> lifecycle \<Rightarrow> lifecycle" where
  "run_task env InitBaileyRest w = initBailey_rest env w"
| "run_task env (RimrafDone PATH_BASE) w = rimraf_done env PATH_BASE w"

definition settle :: "lc_env \<Rightarrow> lifecycle \<Rightarrow> lifecycle" where
  "settle env w = foldl (\<lambda>w' t. run_task env t w') (w\<lparr>pending := []\<rparr>) (pending w)"

text \<open>
  \<^verbatim>\<open>
  handleConnectionUpdate = async (update) => {
      const { connection, lastDisconnect, qr } = update;
      const statusCode = lastDisconnect?.error?.output?.statusCode;
      if (connection === 'close') {
          if (statusCode !== DisconnectReason.loggedOut) this.initBailey();
          if (statusCode === DisconnectReason.loggedOut) this.clearSessionAndRestart();
      }
      if (connection === 'open') {
          this.vendor = this.sock;
          this.initBusEvents(this.sock);
          this.emit('ready', true);
      }
      if (qr) this.emit('qr', qr);
  }
  \<close>
  The update carries the status code at the end of the chain
  \<open>lastDisconnect?.error?.output?.statusCode\<close>, \<open>None\<close> when any link is missing.
  The handler gives the error it rejects with, if any, and the state after the tasks it
  has queued have run.
\<close>

record connection_update =
  connection :: "string option"
  statusCode :: "int option"
  qr :: "string option"

definition on_close :: "lc_env \<Rightarrow> connection_update \<Rightarrow> lifecycle \<Rightarrow> error option \<times> lifecycle" where
  "on_close env update w =
     (let w1 = (if statusCode update \<noteq> Some loggedOut then initBailey w else w)
      in if statusCode update = Some loggedOut then clearSessionAndRestart env w1
         else (None, w1))"

definition on_open :: "lifecycle \<Rightarrow> lifecycle" where
  "on_open w = w\<lparr>lc_log := lc_log w @ [VendorSet, BusEventsBound, EmitReady]\<rparr>"

definition handleConnectionUpdate ::
  "lc_env \<Rightarrow> connection_update \<Rightarrow> lifecycle \<Rightarrow> error option \<times> lifecycle" where
  "handleConnectionUpdate env update w =
     (case (if connection update = Some ''close'' then on_close env update w else (None, w)) of
        (Some e, w1) \<Rightarrow> (Some e, settle env w1)
      | (None, w1) \<Rightarrow>
          (let w2 = (if connection update = Some ''open'' then on_open w1 else w1);
               w3 = (case qr update of
                       None \<Rightarrow> w2
                     | Some q \<Rightarrow>
                         if q \<noteq> [] then w2\<lparr>lc_log := lc_log w2 @ [EmitQr q]\<rparr> else w2)
           in (None, settle env w3)))"

section \<open>Concrete inputs\<close>

text \<open>Inputs at which the handlers are evaluated further down.\<close>

definition uuid0 :: "nat \<Rightarrow> string" where
  "uuid0 k = ''0b1e''"

definition key_from :: "string \<Rightarrow> msg_key" where
  "key_from jid = \<lparr> remoteJid = Some jid, fromMe = Some False, key_id = Some ''3EB0'' \<rparr>"

definition notify_with :: "string \<Rightarrow> message_content \<Rightarrow> upsert_event" where
  "notify_with jid m =
     \<lparr> messages = [\<lparr> key = Some (key_from jid), message = Some m, pushName = None \<rparr>],
       ev_type = ''notify'' \<rparr>"

text \<open>The scenario of the specification: a plain conversation \<open>hi\<close>.\<close>

definition msg_hi :: message_content where
  "msg_hi = empty_message\<lparr>conversation := Some ''hi''\<rparr>"

text \<open>A message carrying numeric coordinates and an image.\<close>

definition msg_location_image :: message_content where
  "msg_location_image =
     empty_message\<lparr>
       locationMessage := Some \<lparr> degreesLatitude = JNumber 4, degreesLongitude = JNumber (- 74) \<rparr>,
       imageMessage := Some ''jpeg'' \<rparr>"

text \<open>An audio message answered through a list row.\<close>

definition msg_audio_list :: message_content where
  "msg_audio_list =
     empty_message\<lparr>
       audioMessage := Some ''ogg'',
       listResponseMessage := Some \<lparr> title = Some ''Option 2'' \<rparr> \<rparr>"

text \<open>A quick-reply button selection with the display text \<open>Yes\<close>, sent with an image.\<close>

definition msg_image_button :: message_content where
  "msg_image_button =
     empty_message\<lparr>
       imageMessage := Some ''jpeg'',
       buttonsResponseMessage := Some \<lparr> selectedDisplayText = Some ''Yes'' \<rparr> \<rparr>"

text \<open>A button selection and a list-row selection in one message.\<close>

definition msg_button_list :: message_content where
  "msg_button_list =
     empty_message\<lparr>
       buttonsResponseMessage := Some \<lparr> selectedDisplayText = Some ''Yes'' \<rparr>,
       listResponseMessage := Some \<lparr> title = Some ''Option 2'' \<rparr> \<rparr>"

text \<open>A button selection whose display text is the empty string, in a conversation \<open>hi\<close>.\<close>

definition msg_button_blank :: message_content where
  "msg_button_blank =
     empty_message\<lparr>
       conversation := Some ''hi'',
       buttonsResponseMessage := Some \<lparr> selectedDisplayText = Some [] \<rparr> \<rparr>"

definition emitted_body :: "error + payload option \<Rightarrow> string option" where
  "emitted_body r = (case r of Inr (Some p) \<Rightarrow> p_body p | _ \<Rightarrow> None)"

definition emitted_type :: "error + payload option \<Rightarrow> string option" where
  "emitted_type r = (case r of Inr (Some p) \<Rightarrow> Some (p_type p) | _ \<Rightarrow> None)"

definition emitted_from :: "error + payload option \<Rightarrow> string option" where
  "emitted_from r = (case r of Inr (Some p) \<Rightarrow> p_from p | _ \<Rightarrow> None)"

text \<open>A poll with one vote for its first option and two for its second.\<close>

definition poll_votes :: "poll_option list" where
  "poll_votes =
     [\<lparr> name = ''A'', voters = [''111@s.whatsapp.net''] \<rparr>,
      \<lparr> name = ''B'', voters = [''222@s.whatsapp.net'', ''333@s.whatsapp.net''] \<rparr>]"

definition aggregate0 :: "message_content \<Rightarrow> opaque list \<Rightarrow> poll_option list" where
  "aggregate0 m ups = poll_votes"

definition store0 :: message_store where
  "store0 jid i =
     (if jid = Some ''111@s.whatsapp.net'' \<and> i = Some ''3EB0''
      then Some \<lparr> key = Some (key_from ''111@s.whatsapp.net''), message = Some msg_hi, pushName = None \<rparr>
      else None)"

definition poll_batch :: "update_entry list" where
  "poll_batch =
     [\<lparr> u_key = key_from ''111@s.whatsapp.net'', u_update = \<lparr> pollUpdates = Some [''vote''] \<rparr> \<rparr>]"

text \<open>
  A media environment in which \<open>/tmp/existing/file.png\<close> exists, and so does a file
  whose relative path reads as a URL; a request, should one be made, is answered with a
  JPEG.
\<close>

definition env0 :: media_env where
  "env0 =
     \<lparr> existsSync = (\<lambda>p. p = ''/tmp/existing/file.png'' \<or> p = ''https://cdn.example/file.png''),
       tmpdir = ''/tmp'',
       date_now = ''1700000000000'',
       http_get = (\<lambda>u. Responded (Some ''image/jpeg'')),
       rename_fails = (\<lambda>a b. False),
       extname = (\<lambda>p. if p = ''/tmp/existing/file.png'' \<or> p = ''https://cdn.example/file.png''
                        then ''.png'' else []),
       mime_contentType = (\<lambda>e. if e = ''.png'' then Some ''image/png'' else None),
       mime_extension = (\<lambda>t. if t = ''image/png'' then Some ''png''
                              else if t = ''image/jpeg'' then Some ''jpg'' else None),
       mime_lookup = (\<lambda>p. None),
       readFileSync = (\<lambda>p. None),
       path_dirname = (\<lambda>p. ''/tmp''),
       path_basename = (\<lambda>p e. p),
       path_join = (\<lambda>a b. a @ ''/'' @ b),
       ffmpeg_fails = (\<lambda>p. False) \<rparr>"

definition client0 :: client where
  "client0 = \<lparr> vendor_ready = True, gifPlayback = False \<rparr>"

definition buttons0 :: "button list" where
  "buttons0 = [\<lparr> btn_body = ''Yes'' \<rparr>, \<lparr> btn_body = ''No'' \<rparr>]"

definition arg_buttons :: "button list \<Rightarrow> send_arg" where
  "arg_buttons bs = \<lparr> opts = Some \<lparr> buttons = Some bs, media = None \<rparr> \<rparr>"

definition arg_plain :: send_arg where
  "arg_plain = \<lparr> opts = None \<rparr>"

text \<open>A process in \<open>/app\<close> with stored credentials.\<close>

definition lc_env0 :: lc_env where
  "lc_env0 = \<lparr> cwd = ''/app'', rimraf_err = False \<rparr>"

definition world0 :: lifecycle where
  "world0 =
     \<lparr> files = (\<lambda>p. if p = ''/app/baileys_sessions/creds.json'' then Some ''creds'' else None),
       lc_log = [], pending = [] \<rparr>"

definition close_with :: "int option \<Rightarrow> connection_update" where
  "close_with code = \<lparr> connection = Some ''close'', statusCode = code, qr = None \<rparr>"

text \<open>The effect a closing update has through \<open>qr\<close>, whatever the connection status.\<close>

definition qr_effects :: "connection_update \<Rightarrow> lc_effect list" where
  "qr_effects update =
     (case qr update of None \<Rightarrow> [] | Some q \<Rightarrow> if q \<noteq> [] then [EmitQr q] else [])"

text \<open>What one call of \<open>initBailey\<close> logs when the credentials file holds \<open>creds\<close>.\<close>

definition init_effects :: "string option \<Rightarrow> lc_effect list" where
  "init_effects creds =
     [AuthStateLoaded SESSION_DIRECTORY_NAME creds,
      StoreReadFromFile (''./'' @ SESSION_DIRECTORY_NAME @ ''/baileys_store.json''),
      IntervalSet 10000,
      SocketMade creds]"

section \<open>Properties of formatPhone\<close>

lemma includes_no_at: "a \<notin> set s \<Longrightarrow> \<not> str_includes s (a # r)"
  by (induction s) auto

lemma replace_no_at: "a \<notin> set s \<Longrightarrow> str_replace (a # r) s = s"
  by (induction s) auto

lemma replace_first_at:
  "a \<notin> set u \<Longrightarrow> str_replace (a # r) (u @ a # r @ v) = u @ v"
  by (induction u) auto

lemma includes_first_at:
  "a \<notin> set u \<Longrightarrow> str_includes (u @ a # v) (a # r) = (prefix r v \<or> str_includes v (a # r))"
  by (induction u) auto

lemma replace_skip_at:
  "a \<notin> set u \<Longrightarrow> \<not> prefix r v \<Longrightarrow>
   str_replace (a # r) (u @ a # v) = u @ a # str_replace (a # r) v"
  by (induction u) auto

lemma prefix_before_at:
  "a \<notin> set r \<Longrightarrow> a \<notin> set v \<Longrightarrow> prefix r (v @ a # t) \<Longrightarrow> prefix r v"
proof (induction v arbitrary: r)
  case Nil
  then show ?case by (cases r) auto
next
  case (Cons c v)
  then show ?case by (cases r) auto
qed

lemmas formatPhone_defs = formatPhone_def g_us_def s_whatsapp_net_def

lemma formatPhone_nonempty: "formatPhone sender False \<noteq> []"
  by (simp add: formatPhone_def Let_def g_us_def s_whatsapp_net_def)

lemma formatPhone_suffix:
  "suffix g_us (formatPhone sender False) \<or> suffix s_whatsapp_net (formatPhone sender False)"
  by (simp add: formatPhone_def Let_def suffix_def)

lemma formatPhone_canonical_g:
  assumes "CHR ''@'' \<notin> set n"
  shows "formatPhone (n @ g_us) False = n @ g_us"
proof -
  have inc: "str_includes (n @ g_us) g_us"
    using assms unfolding g_us_def by (simp add: includes_first_at)
  have rep: "str_replace g_us (n @ g_us) = n"
    using replace_first_at [OF assms, of "''g.us''" "[]"] unfolding g_us_def by simp
  show ?thesis using inc rep by (simp add: formatPhone_def)
qed

lemma formatPhone_canonical_s:
  assumes "CHR ''@'' \<notin> set n"
  shows "formatPhone (n @ s_whatsapp_net) False = n @ s_whatsapp_net"
proof -
  have inc: "\<not> str_includes (n @ s_whatsapp_net) g_us"
    using assms unfolding g_us_def s_whatsapp_net_def by (simp add: includes_first_at)
  have rep: "str_replace s_whatsapp_net (n @ s_whatsapp_net) = n"
    using replace_first_at [OF assms, of "''s.whatsapp.net''" "[]"]
    unfolding s_whatsapp_net_def by simp
  show ?thesis using inc rep by (simp add: formatPhone_def)
qed

lemma split_single_at:
  assumes "count_list x a \<le> 1" and "a \<in> set x"
  shows "\<exists>u v. x = u @ a # v \<and> a \<notin> set u \<and> a \<notin> set v"
proof -
  from split_list_first [OF assms(2)] obtain u v where x: "x = u @ a # v" and u: "a \<notin> set u"
    by blast
  from assms(1) x have "count_list v a = 0" by simp
  then have "a \<notin> set v" by (simp add: count_list_0_iff)
  with x u show ?thesis by blast
qed

text \<open>
  One \<open>@\<close>, with none before and none after it. Three cases: the \<open>@\<close> starts the group
  suffix, it starts the individual suffix, or it starts neither and the individual suffix
  is appended behind it.
\<close>

lemma formatPhone_idem_single_at:
  assumes u: "CHR ''@'' \<notin> set u" and v: "CHR ''@'' \<notin> set v"
  shows "formatPhone (formatPhone (u @ CHR ''@'' # v) False) False
           = formatPhone (u @ CHR ''@'' # v) False"
proof (cases "prefix ''g.us'' v")
  case True
  then obtain w where w: "v = ''g.us'' @ w" by (auto simp: prefix_def)
  have inc: "str_includes (u @ CHR ''@'' # v) g_us"
    using u True unfolding g_us_def by (simp add: includes_first_at)
  have rep: "str_replace g_us (u @ CHR ''@'' # v) = u @ w"
    using replace_first_at [OF u, of "''g.us''" w] w unfolding g_us_def by simp
  have fx: "formatPhone (u @ CHR ''@'' # v) False = (u @ w) @ g_us"
    using inc rep by (simp add: formatPhone_def)
  have "CHR ''@'' \<notin> set (u @ w)" using u v w by auto
  from formatPhone_canonical_g [OF this] fx show ?thesis by simp
next
  case ng: False
  have ninc: "\<not> str_includes (u @ CHR ''@'' # v) g_us"
    using u v ng unfolding g_us_def by (simp add: includes_first_at includes_no_at)
  show ?thesis
  proof (cases "prefix ''s.whatsapp.net'' v")
    case True
    then obtain w where w: "v = ''s.whatsapp.net'' @ w" by (auto simp: prefix_def)
    have rep: "str_replace s_whatsapp_net (u @ CHR ''@'' # v) = u @ w"
      using replace_first_at [OF u, of "''s.whatsapp.net''" w] w
      unfolding s_whatsapp_net_def by simp
    have fx: "formatPhone (u @ CHR ''@'' # v) False = (u @ w) @ s_whatsapp_net"
      using ninc rep by (simp add: formatPhone_def)
    have "CHR ''@'' \<notin> set (u @ w)" using u v w by auto
    from formatPhone_canonical_s [OF this] fx show ?thesis by simp
  next
    case ns: False
    have rep: "str_replace s_whatsapp_net (u @ CHR ''@'' # v) = u @ CHR ''@'' # v"
      using u v ns unfolding s_whatsapp_net_def
      by (simp add: replace_skip_at replace_no_at)
    have fx: "formatPhone (u @ CHR ''@'' # v) False = u @ CHR ''@'' # (v @ s_whatsapp_net)"
      using ninc rep by (simp add: formatPhone_def)
    have ng': "\<not> prefix ''g.us'' (v @ s_whatsapp_net)"
      using prefix_before_at [of "CHR ''@''" "''g.us''" v "''s.whatsapp.net''"] v ng
      unfolding s_whatsapp_net_def by auto
    have ns': "\<not> prefix ''s.whatsapp.net'' (v @ s_whatsapp_net)"
      using prefix_before_at [of "CHR ''@''" "''s.whatsapp.net''" v "''s.whatsapp.net''"] v ns
      unfolding s_whatsapp_net_def by auto
    have ninc2: "\<not> str_includes (u @ CHR ''@'' # (v @ s_whatsapp_net)) g_us"
      using u v ng' unfolding g_us_def
      by (simp add: includes_first_at) (simp add: s_whatsapp_net_def includes_first_at)
    have rep2: "str_replace s_whatsapp_net (u @ CHR ''@'' # (v @ s_whatsapp_net)) = u @ CHR ''@'' # v"
    proof -
      have "str_replace s_whatsapp_net (v @ s_whatsapp_net) = v"
        using replace_first_at [OF v, of "''s.whatsapp.net''" "[]"]
        unfolding s_whatsapp_net_def by simp
      moreover have "str_replace s_whatsapp_net (u @ CHR ''@'' # (v @ s_whatsapp_net))
          = u @ CHR ''@'' # str_replace s_whatsapp_net (v @ s_whatsapp_net)"
        using replace_skip_at [OF u ns'] unfolding s_whatsapp_net_def by simp
      ultimately show ?thesis by simp
    qed
    show ?thesis unfolding fx using ninc2 rep2 by (simp add: formatPhone_def)
  qed
qed

text \<open>
  Claim C7, as stated: \<open>formatPhone (formatPhone x) = formatPhone x\<close> for every contact
  string \<open>x\<close>. It fails where the string holds the suffix twice with text behind the
  second: the first pass deletes the first occurrence only and appends a third, the
  second pass deletes the occurrence the first pass left in the middle.
\<close>

theorem formatPhone_idempotent_counterexample:
  "formatPhone (formatPhone ''a@g.usb@g.usc'' False) False \<noteq> formatPhone ''a@g.usb@g.usc'' False"
  by (simp add: formatPhone_defs)

text \<open>
  Claim C7, amended: for every contact string with at most one \<open>@\<close>,
  \<open>formatPhone (formatPhone x) = formatPhone x\<close>; and a canonical identifier, a bare part
  without \<open>@\<close> followed by \<open>@g.us\<close> or by \<open>@s.whatsapp.net\<close>, is returned unchanged.
\<close>

theorem formatPhone_idempotent:
  "(count_list x (CHR ''@'') \<le> 1 \<longrightarrow>
      formatPhone (formatPhone x False) False = formatPhone x False)
   \<and> (CHR ''@'' \<notin> set n \<longrightarrow>
      formatPhone (n @ g_us) False = n @ g_us
      \<and> formatPhone (n @ s_whatsapp_net) False = n @ s_whatsapp_net)"
proof (intro conjI impI)
  assume le: "count_list x (CHR ''@'') \<le> 1"
  show "formatPhone (formatPhone x False) False = formatPhone x False"
  proof (cases "CHR ''@'' \<in> set x")
    case True
    from split_single_at [OF le True] obtain u v
      where "x = u @ CHR ''@'' # v" "CHR ''@'' \<notin> set u" "CHR ''@'' \<notin> set v" by blast
    then show ?thesis using formatPhone_idem_single_at by simp
  next
    case False
    then have "formatPhone x False = x @ s_whatsapp_net"
      by (simp add: formatPhone_def g_us_def s_whatsapp_net_def includes_no_at replace_no_at)
    with formatPhone_canonical_s [OF False] show ?thesis by simp
  qed
next
  assume "CHR ''@'' \<notin> set n"
  then show "formatPhone (n @ g_us) False = n @ g_us" by (rule formatPhone_canonical_g)
next
  assume "CHR ''@'' \<notin> set n"
  then show "formatPhone (n @ s_whatsapp_net) False = n @ s_whatsapp_net"
    by (rule formatPhone_canonical_s)
qed

theorem formatPhone_idempotent_witness:
  "count_list ''120363041234567890@g.us'' (CHR ''@'') \<le> 1
   \<and> formatPhone (formatPhone ''120363041234567890@g.us'' False) False
        = formatPhone ''120363041234567890@g.us'' False
   \<and> CHR ''@'' \<notin> set ''573001112233''
   \<and> formatPhone (''573001112233'' @ g_us) False = ''573001112233'' @ g_us
   \<and> formatPhone (''573001112233'' @ s_whatsapp_net) False = ''573001112233'' @ s_whatsapp_net"
  using formatPhone_idempotent [of "''120363041234567890@g.us''" "''573001112233''"]
  by simp

section \<open>Properties of the \<open>messages.upsert\<close> handler\<close>

lemmas upsert_defs = messages_upsert_def gate_and_emit_def classify_def detect_location_def
  detect_image_def detect_document_def detect_audio_def retag_def initial_payload_def
  reply_overrides_def btnCtx_def listRowId_def nullish_def

lemmas example_defs = notify_with_def key_from_def msg_hi_def msg_location_image_def
  msg_audio_list_def empty_message_def uuid0_def

text \<open>The detection steps touch \<open>body\<close> and \<open>type\<close> only.\<close>

lemma classify_frame:
  "p_from (classify uuid ctx p) = p_from p \<and> message (classify uuid ctx p) = message p
   \<and> key (classify uuid ctx p) = key p \<and> pushName (classify uuid ctx p) = pushName p"
  by (simp add: classify_def detect_location_def detect_image_def detect_document_def
        detect_audio_def retag_def split: option.splits prod.splits)

text \<open>The type after the four steps is the type set by the last step that fired.\<close>

lemma classify_type:
  "p_type (classify uuid ctx p) =
     (if Option.bind (message ctx) audioMessage \<noteq> None then ''voice''
      else if Option.bind (message ctx) documentMessage \<noteq> None then ''file''
      else if Option.bind (message ctx) imageMessage \<noteq> None then ''image''
      else if has_location ctx then ''location''
      else p_type p)"
  by (simp add: classify_def detect_location_def detect_image_def detect_document_def
        detect_audio_def retag_def has_location_def split: option.splits prod.splits)

lemma reply_overrides_frame:
  "p_type (reply_overrides p) = p_type p \<and> p_from (reply_overrides p) = p_from p
   \<and> reply_overrides p = p\<lparr>p_body := p_body (reply_overrides p)\<rparr>"
  by (simp add: reply_overrides_def Let_def btnCtx_def listRowId_def)

text \<open>What an emitted payload is, and when one is emitted.\<close>

lemma upsert_emitted:
  assumes "messages_upsert uuid ev = Inr (Some q)"
  shows "\<exists>ctx rest sender. ev_type ev = ''notify'' \<and> messages ev = ctx # rest
          \<and> Option.bind (key ctx) remoteJid = Some sender
          \<and> q = (reply_overrides (classify uuid ctx (initial_payload ctx)))
                  \<lparr>p_from := Some (formatPhone sender False)\<rparr>"
proof -
  from assms have ty: "ev_type ev = ''notify''"
    by (auto simp: messages_upsert_def split: if_splits)
  from assms ty obtain ctx rest where ms: "messages ev = ctx # rest"
    by (cases "messages ev") (auto simp: messages_upsert_def)
  let ?c = "classify uuid ctx (initial_payload ctx)"
  from assms ty ms have g: "gate_and_emit ?c = Inr (Some q)"
    by (auto simp: messages_upsert_def Let_def split: if_splits)
  have fr: "p_from ?c = Option.bind (key ctx) remoteJid"
    using classify_frame [of uuid ctx "initial_payload ctx"] by (simp add: initial_payload_def)
  from g obtain sender where s: "p_from ?c = Some sender"
    by (cases "p_from ?c") (auto simp: gate_and_emit_def)
  from g s have "q = (reply_overrides ?c)\<lparr>p_from := Some (formatPhone sender False)\<rparr>"
    using reply_overrides_frame [of ?c]
    by (auto simp: gate_and_emit_def Let_def formatPhone_nonempty split: option.splits if_splits)
  moreover from fr s have "Option.bind (key ctx) remoteJid = Some sender" by simp
  ultimately show ?thesis using ty ms by blast
qed

lemma upsert_passes:
  assumes "ev_type ev = ''notify''" and "messages ev = ctx # rest"
    and "Option.bind (message ctx) pollUpdateMessage = None"
    and "Option.bind (key ctx) remoteJid = Some sender"
    and "sender \<noteq> ''status@broadcast''"
    and "\<not> truthy_flag (Option.bind (key ctx) fromMe)"
  shows "messages_upsert uuid ev =
          Inr (Some ((reply_overrides (classify uuid ctx (initial_payload ctx)))
                       \<lparr>p_from := Some (formatPhone sender False)\<rparr>))"
proof -
  let ?c = "classify uuid ctx (initial_payload ctx)"
  have fr: "p_from ?c = Some sender"
    using classify_frame [of uuid ctx "initial_payload ctx"] assms(4)
    by (simp add: initial_payload_def)
  have g: "gate_and_emit ?c
             = Inr (Some ((reply_overrides ?c)\<lparr>p_from := Some (formatPhone sender False)\<rparr>))"
    using fr reply_overrides_frame [of ?c]
    by (simp add: gate_and_emit_def Let_def formatPhone_nonempty)
  have "p_from (initial_payload ctx) = Some sender" "key (initial_payload ctx) = key ctx"
    using assms(4) by (simp_all add: initial_payload_def)
  then show ?thesis using assms g by (simp add: messages_upsert_def Let_def)
qed

text \<open>
  Claim C1, as stated: the type is chosen first match wins, location before image before
  document before audio, so a message with numeric coordinates and an image is a
  \<open>location\<close>. The handler emits it as an \<open>image\<close>: the image step runs after the
  location step and overwrites its result.
\<close>

theorem upsert_type_first_match_counterexample:
  "has_location \<lparr> key = Some (key_from ''123@s.whatsapp.net''),
                  message = Some msg_location_image, pushName = None \<rparr>
   \<and> emitted_type (messages_upsert uuid0 (notify_with ''123@s.whatsapp.net'' msg_location_image))
        = Some ''image''"
  by (simp add: has_location_def emitted_type_def upsert_defs example_defs formatPhone_defs)

text \<open>
  Claim C1, amended: the type of an emitted message is chosen last match wins among the
  steps location (both coordinates numeric), image, document, audio: \<open>voice\<close> when an
  audio sub-message is present, else \<open>file\<close> when a document is, else \<open>image\<close> when an
  image is, else \<open>location\<close> when numeric coordinates are, else \<open>text\<close>.
\<close>

theorem upsert_type_last_match_wins:
  assumes "messages_upsert uuid ev = Inr (Some q)" and "messages ev = ctx # rest"
  shows "p_type q =
     (if Option.bind (message ctx) audioMessage \<noteq> None then ''voice''
      else if Option.bind (message ctx) documentMessage \<noteq> None then ''file''
      else if Option.bind (message ctx) imageMessage \<noteq> None then ''image''
      else if has_location ctx then ''location''
      else ''text'')"
proof -
  from upsert_emitted [OF assms(1)] assms(2) obtain sender where
    "q = (reply_overrides (classify uuid ctx (initial_payload ctx)))
           \<lparr>p_from := Some (formatPhone sender False)\<rparr>"
    by auto
  then have "p_type q = p_type (classify uuid ctx (initial_payload ctx))"
    using reply_overrides_frame [of "classify uuid ctx (initial_payload ctx)"] by simp
  then show ?thesis
    by (simp only: classify_type) (simp add: initial_payload_def)
qed

theorem upsert_type_last_match_wins_witness:
  "\<exists>q. messages_upsert uuid0 (notify_with ''123@s.whatsapp.net'' msg_location_image) = Inr (Some q)
      \<and> has_location (hd (messages (notify_with ''123@s.whatsapp.net'' msg_location_image)))
      \<and> p_type q = ''image''"
proof -
  let ?ev = "notify_with ''123@s.whatsapp.net'' msg_location_image"
  let ?ctx = "\<lparr> key = Some (key_from ''123@s.whatsapp.net''),
                 message = Some msg_location_image, pushName = None \<rparr>"
  have ms: "messages ?ev = ?ctx # []" by (simp add: notify_with_def)
  obtain q where e: "messages_upsert uuid0 ?ev = Inr (Some q)"
    by (simp add: upsert_defs example_defs formatPhone_defs)
  have "p_type q = ''image''"
    using upsert_type_last_match_wins [OF e ms]
    by (simp add: msg_location_image_def empty_message_def)
  moreover have "has_location (hd (messages ?ev))"
    by (simp add: has_location_def notify_with_def msg_location_image_def empty_message_def)
  ultimately show ?thesis using e by blast
qed

text \<open>
  Claim C4: a notify upsert whose sender fails the validation of contact identifiers is
  dropped before anything is emitted. The handler has the gate, under the comment
  \<open>Check from user and group is valid\<close>, but what it tests is
  \<open>!utils.formatPhone(payload.from)\<close>, and \<open>formatPhone\<close> with its suffix appended is
  empty for no sender: the gate drops nothing. A sender that is the empty string, neither
  a user nor a group, passes it and is emitted with the \<open>from\<close> field
  \<open>@s.whatsapp.net\<close>.
\<close>

theorem upsert_gate_emits_empty_sender:
  "formatPhone [] False = ''@s.whatsapp.net''
   \<and> emitted_from (messages_upsert uuid0 (notify_with [] msg_hi)) = Some ''@s.whatsapp.net''"
  by (simp add: emitted_from_def upsert_defs example_defs formatPhone_defs)

text \<open>
  Claim C8, as stated: the \<open>from\<close> field of an emitted message is bare, its domain
  suffix removed. The handler calls \<open>formatPhone\<close> with \<open>full = false\<close>, the mode that
  puts the suffix back: in the scenario of the specification \<open>from\<close> is
  \<open>123@s.whatsapp.net\<close>, while the bare identifier, \<open>formatPhone\<close> with \<open>full = true\<close>,
  is \<open>123\<close>.
\<close>

theorem upsert_from_bare_counterexample:
  "emitted_from (messages_upsert uuid0 (notify_with ''123@s.whatsapp.net'' msg_hi))
     = Some ''123@s.whatsapp.net''
   \<and> formatPhone ''123@s.whatsapp.net'' True = ''123''"
  by (simp add: emitted_from_def upsert_defs example_defs formatPhone_defs)

text \<open>
  Claim C8, amended: the \<open>from\<close> field of every message emitted from the upsert path is
  \<open>formatPhone\<close> of the sender with \<open>full = false\<close>: it ends with the domain suffix,
  \<open>@g.us\<close> or \<open>@s.whatsapp.net\<close>.
\<close>

theorem upsert_from_keeps_domain:
  assumes "messages_upsert uuid ev = Inr (Some q)" and "messages ev = ctx # rest"
  shows "\<exists>sender. Option.bind (key ctx) remoteJid = Some sender
           \<and> p_from q = Some (formatPhone sender False)
           \<and> (suffix g_us (formatPhone sender False)
                \<or> suffix s_whatsapp_net (formatPhone sender False))"
proof -
  from upsert_emitted [OF assms(1)] assms(2) obtain sender where
    s: "Option.bind (key ctx) remoteJid = Some sender" and
    q: "q = (reply_overrides (classify uuid ctx (initial_payload ctx)))
              \<lparr>p_from := Some (formatPhone sender False)\<rparr>"
    by auto
  from q have "p_from q = Some (formatPhone sender False)" by simp
  with s formatPhone_suffix [of sender] show ?thesis by blast
qed

theorem upsert_from_keeps_domain_witness:
  "\<exists>q. messages_upsert uuid0 (notify_with ''123@s.whatsapp.net'' msg_hi) = Inr (Some q)
      \<and> p_from q = Some ''123@s.whatsapp.net''
      \<and> suffix s_whatsapp_net ''123@s.whatsapp.net''"
proof -
  let ?ev = "notify_with ''123@s.whatsapp.net'' msg_hi"
  let ?ctx = "\<lparr> key = Some (key_from ''123@s.whatsapp.net''),
                 message = Some msg_hi, pushName = None \<rparr>"
  have ms: "messages ?ev = ?ctx # []" by (simp add: notify_with_def)
  obtain q where e: "messages_upsert uuid0 ?ev = Inr (Some q)"
    by (simp add: upsert_defs example_defs formatPhone_defs)
  from upsert_from_keeps_domain [OF e ms]
  have "p_from q = Some ''123@s.whatsapp.net''"
    by (simp add: key_from_def formatPhone_defs)
  moreover have "suffix s_whatsapp_net ''123@s.whatsapp.net''"
    by (simp add: s_whatsapp_net_def suffix_def)
  ultimately show ?thesis using e by blast
qed

text \<open>What the two override statements leave in \<open>body\<close>.\<close>

lemma reply_overrides_body:
  "p_body (reply_overrides p) =
     (if truthy (listRowId p) then listRowId p
      else if truthy (btnCtx p) then btnCtx p else p_body p)"
  by (simp add: reply_overrides_def Let_def listRowId_def btnCtx_def)

lemma truthy_iff: "truthy x = (x \<noteq> None \<and> x \<noteq> Some [])"
  by (cases x) simp_all

text \<open>
  Claim C9, as stated: in a message that passes and carries a quick-reply button
  selection or a list-item selection, \<open>body\<close> is replaced by the display text of that
  selection. A button selection whose display text is the empty string leaves the body
  as it was (\<open>hi\<close>, not the empty string), and in a message with a button selection
  \<open>Yes\<close> and a list row \<open>Option 2\<close> the body is the list row, not the button's text.
\<close>

theorem reply_overrides_counterexample:
  "Option.bind (buttonsResponseMessage msg_button_blank) selectedDisplayText = Some []
   \<and> emitted_body (messages_upsert uuid0 (notify_with ''123@s.whatsapp.net'' msg_button_blank))
        = Some ''hi''
   \<and> Option.bind (buttonsResponseMessage msg_button_list) selectedDisplayText = Some ''Yes''
   \<and> emitted_body (messages_upsert uuid0 (notify_with ''123@s.whatsapp.net'' msg_button_list))
        = Some ''Option 2''"
  by (simp add: emitted_body_def upsert_defs example_defs formatPhone_defs
        msg_button_blank_def msg_button_list_def)

text \<open>
  Claim C9, amended: in every message that passes, \<open>body\<close> is the title of the list-item
  selection when that title is a non-empty string; else the display text of the
  quick-reply button selection when that is a non-empty string; else it stays as
  classified (a selection whose text is empty or absent replaces nothing). The type keeps
  the classified value, and the step changes no field but \<open>body\<close>. The two texts are
  read from the raw message, \<open>message?.listResponseMessage?.title\<close> and
  \<open>message?.buttonsResponseMessage?.selectedDisplayText\<close>.
\<close>

theorem reply_overrides_body_only:
  assumes "messages_upsert uuid ev = Inr (Some q)" and "messages ev = ctx # rest"
    and "list_text = Option.bind (Option.bind (message ctx) listResponseMessage) title"
    and "button_text =
           Option.bind (Option.bind (message ctx) buttonsResponseMessage) selectedDisplayText"
  shows "p_body q =
           (if list_text \<noteq> None \<and> list_text \<noteq> Some [] then list_text
            else if button_text \<noteq> None \<and> button_text \<noteq> Some [] then button_text
            else p_body (classify uuid ctx (initial_payload ctx)))
     \<and> p_type q = p_type (classify uuid ctx (initial_payload ctx))
     \<and> reply_overrides (classify uuid ctx (initial_payload ctx))
           = (classify uuid ctx (initial_payload ctx))\<lparr>p_body := p_body q\<rparr>"
proof -
  let ?c = "classify uuid ctx (initial_payload ctx)"
  from upsert_emitted [OF assms(1)] assms(2) obtain sender where
    q: "q = (reply_overrides ?c)\<lparr>p_from := Some (formatPhone sender False)\<rparr>"
    by auto
  have m: "message ?c = message ctx"
    using classify_frame [of uuid ctx "initial_payload ctx"] by (simp add: initial_payload_def)
  have l: "listRowId ?c = list_text"
    unfolding listRowId_def m assms(3) by (cases "message ctx") simp_all
  have b: "btnCtx ?c = button_text"
    unfolding btnCtx_def m assms(4) by (cases "message ctx") simp_all
  have body: "p_body q = p_body (reply_overrides ?c)" unfolding q by simp
  have ty: "p_type q = p_type ?c"
    unfolding q by (simp add: reply_overrides_def Let_def)
  have fr0: "reply_overrides ?c = ?c\<lparr>p_body := p_body (reply_overrides ?c)\<rparr>"
    by (simp add: reply_overrides_def Let_def)
  have fr: "reply_overrides ?c = ?c\<lparr>p_body := p_body q\<rparr>"
    by (subst body) (rule fr0)
  have bd: "p_body q =
          (if list_text \<noteq> None \<and> list_text \<noteq> Some [] then list_text
           else if button_text \<noteq> None \<and> button_text \<noteq> Some [] then button_text
           else p_body ?c)"
    unfolding body reply_overrides_body l b truthy_iff by (rule refl)
  from bd ty fr show ?thesis by (intro conjI)
qed


theorem reply_overrides_body_only_witness:
  "emitted_body (messages_upsert uuid0 (notify_with ''123@s.whatsapp.net'' msg_image_button))
     = Some ''Yes''
   \<and> emitted_type (messages_upsert uuid0 (notify_with ''123@s.whatsapp.net'' msg_image_button))
     = Some ''image''
   \<and> emitted_body (messages_upsert uuid0 (notify_with ''120363041234567890@g.us'' msg_audio_list))
     = Some ''Option 2''
   \<and> emitted_type (messages_upsert uuid0 (notify_with ''120363041234567890@g.us'' msg_audio_list))
     = Some ''voice''
   \<and> emitted_body (messages_upsert uuid0 (notify_with ''123@s.whatsapp.net'' msg_button_blank))
     = Some ''hi''"
proof -
  let ?e1 = "notify_with ''123@s.whatsapp.net'' msg_image_button"
  let ?c1 = "\<lparr> key = Some (key_from ''123@s.whatsapp.net''),
                message = Some msg_image_button, pushName = None \<rparr>"
  let ?e2 = "notify_with ''120363041234567890@g.us'' msg_audio_list"
  let ?c2 = "\<lparr> key = Some (key_from ''120363041234567890@g.us''),
                message = Some msg_audio_list, pushName = None \<rparr>"
  let ?e3 = "notify_with ''123@s.whatsapp.net'' msg_button_blank"
  let ?c3 = "\<lparr> key = Some (key_from ''123@s.whatsapp.net''),
                message = Some msg_button_blank, pushName = None \<rparr>"
  have ms: "messages ?e1 = ?c1 # []" "messages ?e2 = ?c2 # []" "messages ?e3 = ?c3 # []"
    by (simp_all add: notify_with_def)
  obtain q1 where e1: "messages_upsert uuid0 ?e1 = Inr (Some q1)"
    by (simp add: upsert_defs example_defs formatPhone_defs msg_image_button_def)
  obtain q2 where e2: "messages_upsert uuid0 ?e2 = Inr (Some q2)"
    by (simp add: upsert_defs example_defs formatPhone_defs)
  obtain q3 where e3: "messages_upsert uuid0 ?e3 = Inr (Some q3)"
    by (simp add: upsert_defs example_defs formatPhone_defs msg_button_blank_def)
  note r1 = reply_overrides_body_only [OF e1 ms(1) refl refl]
  note r2 = reply_overrides_body_only [OF e2 ms(2) refl refl]
  note r3 = reply_overrides_body_only [OF e3 ms(3) refl refl]
  from r1 have b1: "p_body q1 = Some ''Yes''"
    by (simp add: msg_image_button_def empty_message_def)
  from r1 have t1: "p_type q1 = ''image''"
    by (simp add: classify_type msg_image_button_def empty_message_def)
  from r2 have b2: "p_body q2 = Some ''Option 2''"
    by (simp add: msg_audio_list_def empty_message_def)
  from r2 have t2: "p_type q2 = ''voice''"
    by (simp add: classify_type msg_audio_list_def empty_message_def)
  have c3: "p_body (classify uuid0 ?c3 (initial_payload ?c3)) = Some ''hi''"
    by (simp add: upsert_defs msg_button_blank_def empty_message_def)
  from r3 c3 have b3: "p_body q3 = Some ''hi''"
    by (simp add: msg_button_blank_def empty_message_def)
  show ?thesis unfolding e1 e2 e3 emitted_body_def emitted_type_def
    using b1 t1 b2 t2 b3 by simp
qed

section \<open>Properties of the \<open>messages.update\<close> handler\<close>

lemma poll_body_first_voted:
  "poll_body polls =
     (case List.find (\<lambda>poll. voters poll \<noteq> []) polls of None \<Rightarrow> [] | Some poll \<Rightarrow> name poll)"
  by (simp add: poll_body_def)

lemma getMessage_found_store:
  "getMessage store k = Inr r \<Longrightarrow> \<exists>loadMessage. store = Some loadMessage"
  by (cases store) (simp_all add: getMessage_def bound_def client_scope_def)

lemma poll_update_step_store:
  "poll_update_step (Some loadMessage) agg ctx entry \<noteq> Inl e"
  by (simp add: poll_update_step_def getMessage_def split: option.splits)

lemma poll_update_loop_mem:
  "p \<in> set (fst (poll_update_loop (Some loadMessage) agg ctx batch)) \<longleftrightarrow>
     (\<exists>entry \<in> set batch. poll_update_step (Some loadMessage) agg ctx entry = Inr (Some p))"
proof (induction batch)
  case Nil
  then show ?case by simp
next
  case (Cons entry batch)
  show ?case
  proof (cases "poll_update_step (Some loadMessage) agg ctx entry")
    case (Inl e)
    then show ?thesis using poll_update_step_store by blast
  next
    case (Inr r)
    then show ?thesis using Cons
      by (cases r) (auto split: prod.splits)
  qed
qed

text \<open>
  Claim C3, as stated: the body of the emitted poll message is the name of the option
  with the most voters. With one voter for \<open>A\<close> and two for \<open>B\<close> the body is \<open>A\<close>:
  \<open>find\<close> stops at the first option that has a voter.
\<close>

theorem poll_body_most_voted_counterexample:
  "map pp_body (fst (messages_update (Some store0) aggregate0 poll_batch)) = [''A'']
   \<and> map name poll_votes = [''A'', ''B'']
   \<and> map length (map voters poll_votes) = [1, 2]"
  by (simp add: messages_update_def poll_update_step_def getMessage_def poll_body_def
        store0_def aggregate0_def poll_batch_def poll_votes_def key_from_def)

text \<open>
  Claim C3, amended: for an update that carries \<open>pollUpdates\<close> and whose poll-creation
  message is found, a message is emitted that has type \<open>poll\<close>, holds the poll-creation
  content in \<open>voters\<close>, and has as \<open>body\<close> the name of the first option, in the order of
  the aggregated votes, that has at least one voter, or the empty string if no option has
  a voter.
\<close>

theorem poll_update_emits_first_voted:
  assumes "entry \<in> set batch"
    and "pollUpdates (u_update entry) = Some ups"
    and "getMessage store (u_key entry) = Inr (Some pollCreation)"
  shows "\<exists>p \<in> set (fst (messages_update store aggregate batch)).
           pp_type p = ''poll'' \<and> pp_voters p = pollCreation
           \<and> pp_from p = remoteJid (u_key entry)
           \<and> pp_body p =
               (case List.find (\<lambda>poll. voters poll \<noteq> []) (aggregate pollCreation ups) of
                  None \<Rightarrow> []
                | Some poll \<Rightarrow> name poll)"
proof -
  from getMessage_found_store [OF assms(3)] obtain loadMessage where
    st: "store = Some loadMessage" by blast
  from assms(1) obtain ctx rest where b: "batch = ctx # rest" by (cases batch) auto
  let ?p = "\<lparr> u_key = u_key ctx, u_update = u_update ctx,
               pp_body = poll_body (aggregate pollCreation ups),
               pp_from = remoteJid (u_key entry), pp_voters = pollCreation, pp_type = ''poll'' \<rparr>"
  have "poll_update_step store aggregate ctx entry = Inr (Some ?p)"
    using assms(2,3) by (simp add: poll_update_step_def)
  with assms(1) st have "?p \<in> set (fst (poll_update_loop store aggregate ctx batch))"
    by (auto simp: poll_update_loop_mem)
  then have "?p \<in> set (fst (messages_update store aggregate batch))"
    using b by (simp add: messages_update_def)
  moreover have "pp_body ?p =
      (case List.find (\<lambda>poll. voters poll \<noteq> []) (aggregate pollCreation ups) of
         None \<Rightarrow> [] | Some poll \<Rightarrow> name poll)"
    by (simp add: poll_body_first_voted)
  ultimately show ?thesis by (intro bexI [of _ ?p]) simp_all
qed

theorem poll_update_emits_first_voted_witness:
  "pollUpdates (u_update (hd poll_batch)) = Some [''vote'']
   \<and> getMessage (Some store0) (u_key (hd poll_batch)) = Inr (Some msg_hi)
   \<and> (\<exists>p. messages_update (Some store0) aggregate0 poll_batch = ([p], None)
          \<and> pp_type p = ''poll'' \<and> pp_voters p = msg_hi \<and> pp_body p = ''A'')"
proof -
  let ?e = "\<lparr> u_key = key_from ''111@s.whatsapp.net'',
               u_update = \<lparr> pollUpdates = Some [''vote''] \<rparr> \<rparr>"
  have h1: "?e \<in> set poll_batch" by (simp add: poll_batch_def)
  have h2: "pollUpdates (u_update ?e) = Some [''vote'']" by simp
  have h3: "getMessage (Some store0) (u_key ?e) = Inr (Some msg_hi)"
    by (simp add: getMessage_def store0_def key_from_def)
  have one: "length (fst (messages_update (Some store0) aggregate0 poll_batch)) = 1
             \<and> snd (messages_update (Some store0) aggregate0 poll_batch) = None"
    by (simp add: messages_update_def poll_update_step_def getMessage_def store0_def
          poll_batch_def key_from_def)
  then obtain p where p: "messages_update (Some store0) aggregate0 poll_batch = ([p], None)"
    by (cases "messages_update (Some store0) aggregate0 poll_batch";
        cases "fst (messages_update (Some store0) aggregate0 poll_batch)") auto
  from poll_update_emits_first_voted [OF h1 h2 h3, of aggregate0] p
  have "pp_type p = ''poll'' \<and> pp_voters p = msg_hi \<and> pp_body p = ''A''"
    by (simp add: aggregate0_def poll_votes_def)
  with p h2 h3 show ?thesis by (simp add: poll_batch_def)
qed

section \<open>Properties of the send path\<close>

text \<open>
  Claim C5: a send whose \<open>options.buttons\<close> is not empty and has fewer than two entries
  returns \<open>false\<close> and issues no \<open>sendMessage\<close> on the connection; with two or more
  entries, on an open connection, it issues exactly one, a poll named by the message,
  with the button labels in order as its values and one selectable choice.
\<close>

theorem sendMessage_buttons:
  assumes "opts a = Some options" and "buttons options = Some bs" and "bs \<noteq> []"
  shows "(length bs < 2 \<longrightarrow> sendMessage env cl numberIn msg (Some a) = (Inr RetFalse, []))
     \<and> (2 \<le> length bs \<and> vendor_ready cl \<longrightarrow>
          sendMessage env cl numberIn msg (Some a) =
            (Inr (RetAck (formatPhone (formatPhone numberIn False) False)
                    (PollContent msg (map btn_body bs) 1)),
             [VendorSend (formatPhone (formatPhone numberIn False) False)
                (PollContent msg (map btn_body bs) 1)]))"
  using assms by (simp add: sendMessage_def sendPoll_def vendor_sendMessage_def Let_def)

theorem sendMessage_buttons_witness:
  "opts (arg_buttons [\<lparr> btn_body = ''Yes'' \<rparr>])
     = Some \<lparr> buttons = Some [\<lparr> btn_body = ''Yes'' \<rparr>], media = None \<rparr>
   \<and> length [\<lparr> btn_body = ''Yes'' \<rparr>] < 2
   \<and> sendMessage env0 client0 ''573001112233'' ''Pick'' (Some (arg_buttons [\<lparr> btn_body = ''Yes'' \<rparr>]))
        = (Inr RetFalse, [])
   \<and> 2 \<le> length buttons0 \<and> vendor_ready client0
   \<and> sendMessage env0 client0 ''573001112233'' ''Pick'' (Some (arg_buttons buttons0))
        = (Inr (RetAck ''573001112233@s.whatsapp.net'' (PollContent ''Pick'' [''Yes'', ''No''] 1)),
           [VendorSend ''573001112233@s.whatsapp.net'' (PollContent ''Pick'' [''Yes'', ''No''] 1)])"
  using sendMessage_buttons [of "arg_buttons [\<lparr> btn_body = ''Yes'' \<rparr>]"
          "\<lparr> buttons = Some [\<lparr> btn_body = ''Yes'' \<rparr>], media = None \<rparr>"
          "[\<lparr> btn_body = ''Yes'' \<rparr>]" env0 client0 "''573001112233''" "''Pick''"]
        sendMessage_buttons [of "arg_buttons buttons0"
          "\<lparr> buttons = Some buttons0, media = None \<rparr>"
          buttons0 env0 client0 "''573001112233''" "''Pick''"]
  by (simp add: arg_buttons_def buttons0_def client0_def formatPhone_defs)

text \<open>
  Claim C10: \<open>sendMessage\<close> called with a target and a message only throws, before any
  branch of the routing runs and before anything is sent; a text message is sent only
  when a third argument is supplied.
\<close>

theorem sendMessage_needs_third_argument:
  "sendMessage env cl numberIn msg None = (Inl TypeError, [])
   \<and> (VendorSend jid (TextContent t) \<in> set (snd (sendMessage env cl numberIn msg arg3))
        \<longrightarrow> arg3 \<noteq> None)"
  by (cases arg3) (simp_all add: sendMessage_def)

theorem sendMessage_needs_third_argument_witness:
  "sendMessage env0 client0 ''573001112233'' ''hello'' None = (Inl TypeError, [])
   \<and> VendorSend ''573001112233@s.whatsapp.net'' (TextContent ''hello'')
        \<in> set (snd (sendMessage env0 client0 ''573001112233'' ''hello'' (Some arg_plain)))
   \<and> Some arg_plain \<noteq> None"
  using sendMessage_needs_third_argument [of env0 client0 "''573001112233''" "''hello''"
          "''573001112233@s.whatsapp.net''" "''hello''" "Some arg_plain"]
  by (simp add: sendMessage_def sendText_def vendor_sendMessage_def arg_plain_def client0_def
        formatPhone_defs Let_def)

section \<open>Properties of the media download\<close>

text \<open>
  A reference that exists locally is never requested over the network: the download
  opens its temporary write stream and then fails where the local branch evaluates
  \<open>mime\<close>.
\<close>

lemma generalDownload_local:
  assumes "existsSync env url"
  shows "generalDownload env url =
           (Inl ReferenceError,
            [CreateWriteStream (tmpdir env @ ''/'' @ ''tmp-'' @ date_now env @ ''-dat'')])"
  using assms
  by (simp add: generalDownload_def handleDownload_def bind_io_def Let_def bound_def
        utils_scope_def)

text \<open>A reference that is fetched fails too, where \<open>fileTypeFromFile\<close> evaluates \<open>mime\<close>.\<close>

lemma generalDownload_remote:
  assumes "\<not> existsSync env url" and "http_get env url = Responded content_type"
  shows "generalDownload env url =
           (Inl ReferenceError,
            [CreateWriteStream (tmpdir env @ ''/'' @ ''tmp-'' @ date_now env @ ''-dat''),
             HttpGet (str_includes url ''https:'') url])"
  using assms
  by (simp add: generalDownload_def handleDownload_def fileTypeFromFile_def bind_io_def
        Let_def bound_def utils_scope_def)

text \<open>
  Claim C6: a media reference that exists as a local path is treated as local, with no
  network request, and its content type is found from the extension of the path. The
  local branch does ask for \<open>mime.contentType(extname(url))\<close>, but \<open>utils.js\<close> binds
  neither \<open>mime\<close> nor \<open>extname\<close>: for the existing path
  \<open>/tmp/existing/file.png\<close> the download opens its temporary write stream and rejects
  with a \<open>ReferenceError\<close>. No request is made, and no content type is found either.
\<close>

theorem generalDownload_local_throws:
  "existsSync env0 ''/tmp/existing/file.png''
   \<and> generalDownload env0 ''/tmp/existing/file.png''
        = (Inl ReferenceError, [CreateWriteStream ''/tmp/tmp-1700000000000-dat''])"
  by (simp add: generalDownload_def handleDownload_def bind_io_def Let_def bound_def
        utils_scope_def env0_def)

section \<open>Properties of the connection lifecycle\<close>

lemma settle_idle: "pending w = [] \<Longrightarrow> settle env w = w"
  by (simp add: settle_def)

text \<open>
  With a status code other than the logged-out reason, a missing one too, a closing
  update starts one connecting cycle on the stored credentials and leaves stable storage
  as it was; the cycle's effects come after the \<open>qr\<close> event of the same update.
\<close>

lemma close_other_restarts:
  assumes "connection update = Some ''close''" and "statusCode update \<noteq> Some loggedOut"
    and "pending w = []"
  shows "fst (handleConnectionUpdate env update w) = None
     \<and> lc_log (snd (handleConnectionUpdate env update w)) =
           lc_log w @ qr_effects update @ init_effects (files w (creds_file env))
     \<and> files (snd (handleConnectionUpdate env update w)) = files w"
  using assms
  by (simp add: handleConnectionUpdate_def on_close_def initBailey_def settle_def
        initBailey_rest_def qr_effects_def init_effects_def Let_def split: option.splits)

text \<open>
  With the logged-out reason the handler rejects where \<open>clearSessionAndRestart\<close>
  evaluates \<open>join\<close>: nothing is logged and nothing is queued.
\<close>

lemma close_logged_out:
  assumes "connection update = Some ''close''" and "statusCode update = Some loggedOut"
  shows "handleConnectionUpdate env update w = (Some ReferenceError, settle env w)"
  using assms
  by (simp add: handleConnectionUpdate_def on_close_def clearSessionAndRestart_def bound_def
        client_scope_def Let_def)

text \<open>
  Claim C2: on a closing update with the logged-out status code the persisted session
  state is destroyed and then a fresh connecting cycle is started; with any other code a
  cycle is started at once and the state is kept. The second half holds. For the first,
  \<open>clearSessionAndRestart\<close> is written to remove the session directory and to restart
  in the callback of the removal, but the module binds neither \<open>join\<close> nor \<open>rimraf\<close>:
  with stored credentials and the logged-out code the handler rejects with a
  \<open>ReferenceError\<close>, the credentials stay where they were, and no cycle is started.
\<close>

theorem close_logged_out_throws:
  "connection (close_with (Some loggedOut)) = Some ''close''
   \<and> statusCode (close_with (Some loggedOut)) = Some loggedOut
   \<and> handleConnectionUpdate lc_env0 (close_with (Some loggedOut)) world0
        = (Some ReferenceError, world0)
   \<and> files world0 ''/app/baileys_sessions/creds.json'' = Some ''creds''
   \<and> lc_log world0 = []"
  by (simp add: handleConnectionUpdate_def on_close_def clearSessionAndRestart_def bound_def
        client_scope_def Let_def settle_def close_with_def world0_def)

end
